theory Spec2Isabelle
  imports Complex_Main
begin

section \<open>Python values\<close>

text \<open>
  The module \<open>skein/model.py\<close> is dynamically typed: every field of an entity may hold
  any Python object until \<open>_validate\<close> has looked at it, and the claims are about which
  check rejects which object. The model therefore has one type of Python values. An
  entity object is a constructor carrying the values of its \<open>__slots__\<close>, in the order
  of the class's \<open>__slots__\<close> tuple; such a term is the bare object, before
  \<open>_check_required\<close> and \<open>_validate\<close> have run.

  A \<open>dict\<close> is the list of its items in insertion order; Python keeps the keys of a
  dict pairwise different, so does every dict this model builds. A \<open>float\<close> is the
  number a double denotes, or one of its three special values; no function of the
  module computes with floats. A naive \<open>datetime\<close> is the number of microseconds
  between \<open>_EPOCH = datetime(1970, 1, 1)\<close> and it.
\<close>

datatype pyfloat = Finite real | PosInf | NegInf | NaN

datatype pyval =
    PNone
  | Required
  | PBool bool
  | PInt int
  | PFloat pyfloat
  | PStr string
  | PDatetime int
  | PList "pyval list"
  | PDict "(pyval \<times> pyval) list"
  | Resources pyval pyval
  | File pyval pyval pyval pyval pyval
  | Service pyval pyval pyval pyval pyval pyval
  | Job pyval pyval pyval
  | ResourceUsageReport pyval pyval pyval pyval pyval pyval
  | ApplicationReport pyval pyval pyval pyval pyval pyval pyval pyval
      pyval pyval pyval pyval pyval pyval pyval

text \<open>The classes that the module passes to \<open>isinstance\<close>, and their \<open>__name__\<close>.\<close>

datatype pytype =
  T_str | T_int | T_float | T_datetime | T_Resources | T_File | T_Service
  | T_ResourceUsageReport

definition type_name :: "pytype \<Rightarrow> string" where
  "type_name t = (case t of
      T_str \<Rightarrow> ''str'' | T_int \<Rightarrow> ''int'' | T_float \<Rightarrow> ''float''
    | T_datetime \<Rightarrow> ''datetime'' | T_Resources \<Rightarrow> ''Resources'' | T_File \<Rightarrow> ''File''
    | T_Service \<Rightarrow> ''Service'' | T_ResourceUsageReport \<Rightarrow> ''ResourceUsageReport'')"

text \<open>\<open>isinstance(x, typ)\<close>; \<open>bool\<close> is a subclass of \<open>int\<close>.\<close>

definition isinstance :: "pyval \<Rightarrow> pytype \<Rightarrow> bool" where
  "isinstance x typ = (case typ of
      T_str \<Rightarrow> (case x of PStr _ \<Rightarrow> True | _ \<Rightarrow> False)
    | T_int \<Rightarrow> (case x of PInt _ \<Rightarrow> True | PBool _ \<Rightarrow> True | _ \<Rightarrow> False)
    | T_float \<Rightarrow> (case x of PFloat _ \<Rightarrow> True | _ \<Rightarrow> False)
    | T_datetime \<Rightarrow> (case x of PDatetime _ \<Rightarrow> True | _ \<Rightarrow> False)
    | T_Resources \<Rightarrow> (case x of Resources _ _ \<Rightarrow> True | _ \<Rightarrow> False)
    | T_File \<Rightarrow> (case x of File _ _ _ _ _ \<Rightarrow> True | _ \<Rightarrow> False)
    | T_Service \<Rightarrow> (case x of Service _ _ _ _ _ _ \<Rightarrow> True | _ \<Rightarrow> False)
    | T_ResourceUsageReport \<Rightarrow>
        (case x of ResourceUsageReport _ _ _ _ _ _ \<Rightarrow> True | _ \<Rightarrow> False))"

text \<open>The integer an \<open>int\<close> or \<open>bool\<close> object stands for.\<close>

definition int_of :: "pyval \<Rightarrow> int" where
  "int_of x = (case x of PInt i \<Rightarrow> i | PBool b \<Rightarrow> (if b then 1 else 0) | _ \<Rightarrow> 0)"

text \<open>
  Objects with a hash: \<open>list\<close> and \<open>dict\<close> have none, nor has an entity, whose class
  defines \<open>__eq__\<close> and no \<open>__hash__\<close>.
\<close>

definition hashable :: "pyval \<Rightarrow> bool" where
  "hashable x = (case x of
      PNone \<Rightarrow> True | Required \<Rightarrow> True | PBool _ \<Rightarrow> True | PInt _ \<Rightarrow> True
    | PFloat _ \<Rightarrow> True | PStr _ \<Rightarrow> True | PDatetime _ \<Rightarrow> True | _ \<Rightarrow> False)"

text \<open>
  \<open>x == y\<close> on objects that are not containers: numbers compare by value across
  \<open>bool\<close>, \<open>int\<close> and \<open>float\<close>, a NaN equals nothing, and objects of unrelated types
  differ.
\<close>

definition float_of :: "pyval \<Rightarrow> pyfloat option" where
  "float_of x = (case x of
      PInt i \<Rightarrow> Some (Finite (of_int i))
    | PBool b \<Rightarrow> Some (Finite (if b then 1 else 0))
    | PFloat f \<Rightarrow> Some f
    | _ \<Rightarrow> None)"

definition atom_eq :: "pyval \<Rightarrow> pyval \<Rightarrow> bool" where
  "atom_eq x y = (case (float_of x, float_of y) of
      (Some f, Some g) \<Rightarrow> f \<noteq> NaN \<and> f = g
    | (Some f, None) \<Rightarrow> False
    | (None, Some g) \<Rightarrow> False
    | (None, None) \<Rightarrow> hashable x \<and> x = y)"

text \<open>\<open>d[k]\<close> and \<open>d.get(k)\<close> find the item whose key equals \<open>k\<close>.\<close>

fun dict_lookup :: "(pyval \<times> pyval) list \<Rightarrow> pyval \<Rightarrow> pyval option" where
  "dict_lookup [] k = None"
| "dict_lookup ((k', v) # d) k = (if atom_eq k' k then Some v else dict_lookup d k)"



section \<open>Exceptions\<close>

text \<open>
  An exception is a value, one constructor for each \<open>raise\<close> of the module; the fields
  are the arguments of its message. The last five are raised by the interpreter or by
  a library function the module calls, not by a \<open>raise\<close> of its own.
\<close>

datatype error =
    Expected_mapping string
      \<comment> \<open>\<open>TypeError("Expected mapping for %r" % cls.__name__)\<close>, and
          \<open>TypeError("Expected mapping for File")\<close> in \<open>_parse_file_spec\<close>\<close>
  | Unknown_extra_keys string "pyval set"
      \<comment> \<open>\<open>ValueError("Unknown extra keys for %s:\n%s" % (cls.__name__, format_list(extra)))\<close>\<close>
  | Required_missing string
      \<comment> \<open>\<open>TypeError("parameter %r is required but wasn't provided" % k)\<close>\<close>
  | Not_in_set string "string set"
      \<comment> \<open>\<open>ValueError("%s must be in %r" % (field, values))\<close>\<close>
  | Not_instance string string bool
      \<comment> \<open>\<open>TypeError("%s must be an instance of %s")\<close>, with \<open>", or None"\<close> when nullable\<close>
  | Not_list_of string string bool
      \<comment> \<open>\<open>TypeError("%s must be a list of %s")\<close>, with \<open>", or None"\<close> when nullable\<close>
  | Not_dict_of string string string bool
      \<comment> \<open>\<open>TypeError("%s must be a list of %s -> %s")\<close>, or \<open>"a dict of ..., or None"\<close>\<close>
  | Below_min string int
      \<comment> \<open>\<open>ValueError("%s must be >= %d" % (field, min))\<close>\<close>
  | Expected_message string
      \<comment> \<open>\<open>TypeError("Expected message of type %r" % cls._protobuf_cls.__name__)\<close>\<close>
  | Both_archive_and_file
      \<comment> \<open>\<open>ValueError("Both 'archive' and 'file' specified")\<close>\<close>
  | Not_directories
      \<comment> \<open>\<open>ValueError("Distributed files must be files/archives, not directories")\<close>\<close>
  | No_command
      \<comment> \<open>\<open>ValueError("There must be at least one command")\<close>\<close>
  | No_service
      \<comment> \<open>\<open>ValueError("There must be at least one service")\<close>\<close>
  | KeyError pyval
  | TypeError
  | AttributeError
  | OverflowError
  | ValueError

datatype exception_class =
  Cls_TypeError | Cls_ValueError | Cls_KeyError | Cls_AttributeError | Cls_OverflowError

definition class_of :: "error \<Rightarrow> exception_class" where
  "class_of e = (case e of
      Expected_mapping _ \<Rightarrow> Cls_TypeError
    | Unknown_extra_keys _ _ \<Rightarrow> Cls_ValueError
    | Required_missing _ \<Rightarrow> Cls_TypeError
    | Not_in_set _ _ \<Rightarrow> Cls_ValueError
    | Not_instance _ _ _ \<Rightarrow> Cls_TypeError
    | Not_list_of _ _ _ \<Rightarrow> Cls_TypeError
    | Not_dict_of _ _ _ _ \<Rightarrow> Cls_TypeError
    | Below_min _ _ \<Rightarrow> Cls_ValueError
    | Expected_message _ \<Rightarrow> Cls_TypeError
    | Both_archive_and_file \<Rightarrow> Cls_ValueError
    | Not_directories \<Rightarrow> Cls_ValueError
    | No_command \<Rightarrow> Cls_ValueError
    | No_service \<Rightarrow> Cls_ValueError
    | KeyError _ \<Rightarrow> Cls_KeyError
    | TypeError \<Rightarrow> Cls_TypeError
    | AttributeError \<Rightarrow> Cls_AttributeError
    | OverflowError \<Rightarrow> Cls_OverflowError
    | ValueError \<Rightarrow> Cls_ValueError)"

text \<open>
  A method that only checks returns \<open>None\<close> when it falls through and the exception
  when it raises. A sequence of statements raises what its first raising statement
  raises.
\<close>

fun first_err :: "error option list \<Rightarrow> error option" where
  "first_err [] = None"
| "first_err (None # cs) = first_err cs"
| "first_err (Some e # cs) = Some e"

definition after_check :: "error option \<Rightarrow> error + 'a \<Rightarrow> error + 'a" where
  "after_check c k = (case c of Some e \<Rightarrow> Inl e | None \<Rightarrow> k)"

definition and_then :: "error + 'a \<Rightarrow> ('a \<Rightarrow> error + 'b) \<Rightarrow> error + 'b" where
  "and_then m f = (case m of Inl e \<Rightarrow> Inl e | Inr x \<Rightarrow> f x)"


section \<open>Helpers of the module\<close>

definition if_none :: "pyval \<Rightarrow> pyval \<Rightarrow> pyval" where
  "if_none x y = (if x \<noteq> PNone then x else y)"

definition is_list_of :: "pyval \<Rightarrow> pytype \<Rightarrow> bool" where
  "is_list_of x typ = (case x of PList xs \<Rightarrow> list_all (\<lambda>i. isinstance i typ) xs | _ \<Rightarrow> False)"

definition is_dict_of :: "pyval \<Rightarrow> pytype \<Rightarrow> pytype \<Rightarrow> bool" where
  "is_dict_of x ktyp vtyp = (case x of
      PDict d \<Rightarrow> list_all (\<lambda>k. isinstance k ktyp) (map fst d)
                \<and> list_all (\<lambda>v. isinstance v vtyp) (map snd d)
    | _ \<Rightarrow> False)"

text \<open>The truth value of an object, as \<open>not x\<close> and \<open>if x\<close> take it.\<close>

definition truthy :: "pyval \<Rightarrow> bool" where
  "truthy x = (case x of
      PNone \<Rightarrow> False | PBool b \<Rightarrow> b | PInt i \<Rightarrow> i \<noteq> 0
    | PFloat f \<Rightarrow> f \<noteq> Finite 0 | PStr s \<Rightarrow> s \<noteq> [] | PList xs \<Rightarrow> xs \<noteq> []
    | PDict d \<Rightarrow> d \<noteq> [] | _ \<Rightarrow> True)"

text \<open>\<open>x.values()\<close> where \<open>x\<close> has passed \<open>_check_is_dict_of\<close>.\<close>

definition dict_values :: "pyval \<Rightarrow> pyval list" where
  "dict_values x = (case x of PDict d \<Rightarrow> map snd d | _ \<Rightarrow> [])"


section \<open>The class \<open>Base\<close>\<close>

text \<open>The \<open>__slots__\<close> of each class, and the slots of an object with their values.\<close>

definition Resources_slots :: "string list" where
  "Resources_slots = [''memory'', ''vcores'']"

definition File_slots :: "string list" where
  "File_slots = [''source'', ''type'', ''visibility'', ''size'', ''timestamp'']"

definition Service_slots :: "string list" where
  "Service_slots = [''commands'', ''resources'', ''instances'', ''files'', ''env'', ''depends'']"

definition Job_slots :: "string list" where
  "Job_slots = [''name'', ''queue'', ''services'']"

definition ResourceUsageReport_slots :: "string list" where
  "ResourceUsageReport_slots =
     [''memory_seconds'', ''vcore_seconds'', ''num_used_containers'',
      ''needed_resources'', ''reserved_resources'', ''used_resources'']"

definition ApplicationReport_slots :: "string list" where
  "ApplicationReport_slots =
     [''id'', ''name'', ''user'', ''queue'', ''tags'', ''host'', ''port'',
      ''tracking_url'', ''state'', ''final_status'', ''progress'', ''usage'',
      ''diagnostics'', ''start_time'', ''finish_time'']"

definition slots :: "pyval \<Rightarrow> (string \<times> pyval) list" where
  "slots self = (case self of
      Resources a b \<Rightarrow> zip Resources_slots [a, b]
    | File a b c d e \<Rightarrow> zip File_slots [a, b, c, d, e]
    | Service a b c d e f \<Rightarrow> zip Service_slots [a, b, c, d, e, f]
    | Job a b c \<Rightarrow> zip Job_slots [a, b, c]
    | ResourceUsageReport a b c d e f \<Rightarrow> zip ResourceUsageReport_slots [a, b, c, d, e, f]
    | ApplicationReport a b c d e f g h i j k l m n p \<Rightarrow>
        zip ApplicationReport_slots [a, b, c, d, e, f, g, h, i, j, k, l, m, n, p]
    | _ \<Rightarrow> [])"

text \<open>
  \<open>_check_keys(cls, obj, keys)\<close>: \<open>extra = set(obj).difference(keys)\<close>. Every caller's
  \<open>keys\<close> is a non-empty tuple of strings or absent, and \<open>keys or cls.__slots__\<close> then
  is the \<open>keys\<close> passed here.
\<close>

definition check_keys :: "string \<Rightarrow> pyval \<Rightarrow> string list \<Rightarrow> error option" where
  "check_keys cls obj keys = (case obj of
      PDict d \<Rightarrow>
        (let extra = set (map fst d) - set (map PStr keys)
         in if extra \<noteq> {} then Some (Unknown_extra_keys cls extra) else None)
    | _ \<Rightarrow> Some (Expected_mapping cls))"

definition check_required :: "pyval \<Rightarrow> error option" where
  "check_required self = (case find (\<lambda>kv. snd kv = Required) (slots self) of
      Some kv \<Rightarrow> Some (Required_missing (fst kv))
    | None \<Rightarrow> None)"

text \<open>
  The checks below take the field's name and its value \<open>getattr(self, field)\<close>.
  \<open>x not in values\<close> hashes \<open>x\<close> first, which fails for an object without a hash.
\<close>

definition check_in_set :: "string \<Rightarrow> pyval \<Rightarrow> string set \<Rightarrow> error option" where
  "check_in_set field val values =
     (if \<not> hashable val then Some TypeError
      else if (case val of PStr s \<Rightarrow> s \<notin> values | _ \<Rightarrow> True)
      then Some (Not_in_set field values) else None)"

definition check_is_type :: "string \<Rightarrow> pyval \<Rightarrow> pytype \<Rightarrow> bool \<Rightarrow> error option" where
  "check_is_type field val typ nullable =
     (if \<not> (isinstance val typ \<or> (nullable \<and> val = PNone))
      then Some (Not_instance field (type_name typ) nullable) else None)"

definition check_is_list_of :: "string \<Rightarrow> pyval \<Rightarrow> pytype \<Rightarrow> bool \<Rightarrow> error option" where
  "check_is_list_of field val typ nullable =
     (if \<not> (is_list_of val typ \<or> (nullable \<and> val = PNone))
      then Some (Not_list_of field (type_name typ) nullable) else None)"

definition check_is_dict_of ::
  "string \<Rightarrow> pyval \<Rightarrow> pytype \<Rightarrow> pytype \<Rightarrow> bool \<Rightarrow> error option" where
  "check_is_dict_of field attr key val nullable =
     (if \<not> (is_dict_of attr key val \<or> (nullable \<and> attr = PNone))
      then Some (Not_dict_of field (type_name key) (type_name val) nullable) else None)"

definition check_is_bounded_int :: "string \<Rightarrow> pyval \<Rightarrow> int \<Rightarrow> bool \<Rightarrow> error option" where
  "check_is_bounded_int field x mn nullable =
     first_err [check_is_type field x T_int nullable,
                if x \<noteq> PNone \<and> int_of x < mn then Some (Below_min field mn) else None]"


section \<open>The entities: \<open>_validate\<close> and \<open>__init__\<close>\<close>

text \<open>
  A \<open>_validate\<close> is only ever called on an object of its own class; on any other
  object the attribute is missing.
\<close>

definition Resources_validate :: "pyval \<Rightarrow> bool \<Rightarrow> error option" where
  "Resources_validate self is_request = (case self of
      Resources memory vcores \<Rightarrow>
        (let mn = (if is_request then 1 else 0)
         in first_err [check_is_bounded_int ''vcores'' vcores mn False,
                       check_is_bounded_int ''memory'' memory mn False])
    | _ \<Rightarrow> Some AttributeError)"

definition Resources_init :: "pyval \<Rightarrow> pyval \<Rightarrow> error + pyval" where
  "Resources_init memory vcores =
     (let self = Resources memory vcores
      in after_check (first_err [check_required self, Resources_validate self False])
           (Inr self))"

definition File_validate :: "pyval \<Rightarrow> error option" where
  "File_validate self = (case self of
      File source type visibility sz timestamp \<Rightarrow>
        first_err [check_is_type ''source'' source T_str False,
                   check_in_set ''type'' type {''FILE'', ''ARCHIVE''},
                   check_in_set ''visibility'' visibility
                     {''APPLICATION'', ''PUBLIC'', ''PRIVATE''},
                   check_is_bounded_int ''size'' sz 0 False,
                   check_is_bounded_int ''timestamp'' timestamp 0 False]
    | _ \<Rightarrow> Some AttributeError)"

definition File_init :: "pyval \<Rightarrow> pyval \<Rightarrow> pyval \<Rightarrow> pyval \<Rightarrow> pyval \<Rightarrow> error + pyval" where
  "File_init source type visibility sz timestamp =
     (let self = File source type visibility sz timestamp
      in after_check (first_err [check_required self, File_validate self]) (Inr self))"

definition Service_validate :: "pyval \<Rightarrow> error option" where
  "Service_validate self = (case self of
      Service commands resources instances files env depends \<Rightarrow>
        first_err [check_is_bounded_int ''instances'' instances 0 False,
                   check_is_type ''resources'' resources T_Resources False,
                   Resources_validate resources True,
                   check_is_dict_of ''files'' files T_str T_File False,
                   first_err (map File_validate (dict_values files)),
                   check_is_dict_of ''env'' env T_str T_str False,
                   check_is_list_of ''commands'' commands T_str False,
                   if \<not> truthy commands then Some No_command else None,
                   check_is_list_of ''depends'' depends T_str False]
    | _ \<Rightarrow> Some AttributeError)"

definition Service_init ::
  "pyval \<Rightarrow> pyval \<Rightarrow> pyval \<Rightarrow> pyval \<Rightarrow> pyval \<Rightarrow> pyval \<Rightarrow> error + pyval" where
  "Service_init commands resources instances files env depends =
     (let self = Service commands resources instances
                   (if_none files (PDict [])) (if_none env (PDict []))
                   (if_none depends (PList []))
      in after_check (first_err [check_required self, Service_validate self]) (Inr self))"

definition Job_validate :: "pyval \<Rightarrow> error option" where
  "Job_validate self = (case self of
      Job name queue services \<Rightarrow>
        first_err [check_is_type ''name'' name T_str False,
                   check_is_type ''queue'' queue T_str True,
                   check_is_dict_of ''services'' services T_str T_Service False,
                   if \<not> truthy services then Some No_service else None,
                   first_err (map Service_validate (dict_values services))]
    | _ \<Rightarrow> Some AttributeError)"

text \<open>\<open>Job.__init__(self, services=required, name='skein', queue='')\<close>\<close>

definition Job_init :: "pyval \<Rightarrow> pyval \<Rightarrow> pyval \<Rightarrow> error + pyval" where
  "Job_init services name queue =
     (let self = Job name queue services
      in after_check (first_err [check_required self, Job_validate self]) (Inr self))"

definition ResourceUsageReport_validate :: "pyval \<Rightarrow> error option" where
  "ResourceUsageReport_validate self = (case self of
      ResourceUsageReport memory_seconds vcore_seconds num_used_containers
          needed_resources reserved_resources used_resources \<Rightarrow>
        first_err [check_is_bounded_int ''memory_seconds'' memory_seconds 0 False,
                   check_is_bounded_int ''vcore_seconds'' vcore_seconds 0 False,
                   check_is_bounded_int ''num_used_containers'' num_used_containers 0 False,
                   check_is_type ''needed_resources'' needed_resources T_Resources False,
                   Resources_validate needed_resources False,
                   check_is_type ''reserved_resources'' reserved_resources T_Resources False,
                   Resources_validate reserved_resources False,
                   check_is_type ''used_resources'' used_resources T_Resources False,
                   Resources_validate used_resources False]
    | _ \<Rightarrow> Some AttributeError)"

definition ResourceUsageReport_init ::
  "pyval \<Rightarrow> pyval \<Rightarrow> pyval \<Rightarrow> pyval \<Rightarrow> pyval \<Rightarrow> pyval \<Rightarrow> error + pyval" where
  "ResourceUsageReport_init memory_seconds vcore_seconds num_used_containers
       needed_resources reserved_resources used_resources =
     (let self = ResourceUsageReport memory_seconds vcore_seconds num_used_containers
                   needed_resources reserved_resources used_resources
      in after_check (ResourceUsageReport_validate self) (Inr self))"

definition ApplicationReport_validate :: "pyval \<Rightarrow> error option" where
  "ApplicationReport_validate self = (case self of
      ApplicationReport ident name user queue tags host port tracking_url state
          final_status progress usage diagnostics start_time finish_time \<Rightarrow>
        first_err [check_is_type ''id'' ident T_str False,
                   check_is_type ''name'' name T_str False,
                   check_is_type ''user'' user T_str False,
                   check_is_type ''queue'' queue T_str False,
                   check_is_list_of ''tags'' tags T_str False,
                   check_is_type ''host'' host T_str True,
                   check_is_type ''port'' port T_int True,
                   check_is_type ''tracking_url'' tracking_url T_str True,
                   check_is_type ''state'' state T_str False,
                   check_is_type ''final_status'' final_status T_str False,
                   check_is_type ''progress'' progress T_float False,
                   check_is_type ''usage'' usage T_ResourceUsageReport False,
                   ResourceUsageReport_validate usage,
                   check_is_type ''diagnostics'' diagnostics T_str True,
                   check_is_type ''start_time'' start_time T_datetime False,
                   check_is_type ''finish_time'' finish_time T_datetime False]
    | _ \<Rightarrow> Some AttributeError)"

definition ApplicationReport_init ::
  "pyval \<Rightarrow> pyval \<Rightarrow> pyval \<Rightarrow> pyval \<Rightarrow> pyval \<Rightarrow> pyval \<Rightarrow> pyval \<Rightarrow> pyval \<Rightarrow> pyval \<Rightarrow> pyval
     \<Rightarrow> pyval \<Rightarrow> pyval \<Rightarrow> pyval \<Rightarrow> pyval \<Rightarrow> pyval \<Rightarrow> error + pyval" where
  "ApplicationReport_init ident name user queue tags host port tracking_url state
       final_status progress usage diagnostics start_time finish_time =
     (let self = ApplicationReport ident name user queue tags host port tracking_url
                   state final_status progress usage diagnostics start_time finish_time
      in after_check (ApplicationReport_validate self) (Inr self))"


section \<open>Strings and paths\<close>

text \<open>
  Strings are ASCII. \<open>str.upper\<close> and \<open>str.title\<close> change the case of the letters
  \<open>a\<close> to \<open>z\<close> and \<open>A\<close> to \<open>Z\<close> and leave every other character as it is.
\<close>

definition upper_char :: "char \<Rightarrow> char" where
  "upper_char c = (case map_of (zip ''abcdefghijklmnopqrstuvwxyz''
                                    ''ABCDEFGHIJKLMNOPQRSTUVWXYZ'') c of
      Some u \<Rightarrow> u | None \<Rightarrow> c)"

definition lower_char :: "char \<Rightarrow> char" where
  "lower_char c = (case map_of (zip ''ABCDEFGHIJKLMNOPQRSTUVWXYZ''
                                    ''abcdefghijklmnopqrstuvwxyz'') c of
      Some l \<Rightarrow> l | None \<Rightarrow> c)"

definition is_cased :: "char \<Rightarrow> bool" where
  "is_cased c = (c \<in> set ''abcdefghijklmnopqrstuvwxyzABCDEFGHIJKLMNOPQRSTUVWXYZ'')"

definition str_upper :: "string \<Rightarrow> string" where
  "str_upper s = map upper_char s"

text \<open>
  \<open>s.title()\<close>: a letter that follows a letter becomes lower case, any other letter
  upper case.
\<close>

fun title_from :: "bool \<Rightarrow> string \<Rightarrow> string" where
  "title_from previous_is_cased [] = []"
| "title_from previous_is_cased (c # s) =
     (if previous_is_cased then lower_char c else upper_char c) # title_from (is_cased c) s"

definition str_title :: "string \<Rightarrow> string" where
  "str_title s = title_from False s"

text \<open>\<open>s.split(sep)\<close> for a separator of one character.\<close>

fun str_split :: "string \<Rightarrow> char \<Rightarrow> string list" where
  "str_split [] sep = [] # []"
| "str_split (c # s) sep =
     (if c = sep then [] # str_split s sep
      else (case str_split s sep of p # ps \<Rightarrow> (c # p) # ps | [] \<Rightarrow> [c] # []))"

definition to_camel_case :: "string \<Rightarrow> string" where
  "to_camel_case x = (case str_split x CHR ''_'' of
      [] \<Rightarrow> []
    | p # parts \<Rightarrow> p @ concat (map str_title parts))"

definition endswith :: "string \<Rightarrow> string \<Rightarrow> bool" where
  "endswith name ext =
     (length ext \<le> length name \<and> drop (length name - length ext) name = ext)"

text \<open>\<open>name[:-n]\<close> for \<open>n = len(ext)\<close>.\<close>

definition drop_last :: "nat \<Rightarrow> string \<Rightarrow> string" where
  "drop_last n name = (if n = 0 then [] else take (length name - n) name)"

text \<open>
  \<open>os.path.split\<close> of the POSIX path module, which is library code: \<open>i = p.rfind('/') + 1\<close>,
  \<open>head, tail = p[:i], p[i:]\<close>, and the trailing slashes of \<open>head\<close> are stripped unless
  \<open>head\<close> consists of slashes.
\<close>

definition os_path_split :: "string \<Rightarrow> string \<times> string" where
  "os_path_split p =
     (let i = length (dropWhile (\<lambda>c. c \<noteq> CHR ''/'') (rev p));
          head = take i p;
          tail = drop i p
      in (if head \<noteq> [] \<and> head \<noteq> replicate (length head) CHR ''/''
          then rev (dropWhile (\<lambda>c. c = CHR ''/'') (rev head)) else head,
          tail))"


section \<open>Dictionaries and built-ins\<close>

definition is_dict :: "pyval \<Rightarrow> bool" where
  "is_dict x = (case x of PDict _ \<Rightarrow> True | _ \<Rightarrow> False)"

text \<open>\<open>k in obj\<close>, \<open>obj.get(k, default)\<close> and \<open>obj[k]\<close> for a string \<open>k\<close>.\<close>

definition has_key :: "pyval \<Rightarrow> string \<Rightarrow> bool" where
  "has_key obj k = (case obj of PDict d \<Rightarrow> dict_lookup d (PStr k) \<noteq> None | _ \<Rightarrow> False)"

definition get :: "pyval \<Rightarrow> string \<Rightarrow> pyval \<Rightarrow> pyval" where
  "get obj k dflt = (case obj of
      PDict d \<Rightarrow> (case dict_lookup d (PStr k) of Some v \<Rightarrow> v | None \<Rightarrow> dflt)
    | _ \<Rightarrow> dflt)"

definition getitem :: "pyval \<Rightarrow> string \<Rightarrow> error + pyval" where
  "getitem obj k = (case obj of
      PDict d \<Rightarrow> (case dict_lookup d (PStr k) of
                   Some v \<Rightarrow> Inr v | None \<Rightarrow> Inl (KeyError (PStr k)))
    | _ \<Rightarrow> Inl TypeError)"

text \<open>\<open>d[k] = v\<close>: an existing key keeps its place and its key object.\<close>

fun dict_insert :: "(pyval \<times> pyval) list \<Rightarrow> pyval \<Rightarrow> pyval \<Rightarrow> (pyval \<times> pyval) list" where
  "dict_insert [] k v = [(k, v)]"
| "dict_insert ((k', v') # d) k v =
     (if atom_eq k' k then (k', v) # d else (k', v') # dict_insert d k v)"

text \<open>The comprehension \<open>{k: f(v) for k, v in d.items()}\<close>, where \<open>f\<close> may raise.\<close>

fun map_values :: "('a \<Rightarrow> error + 'b) \<Rightarrow> ('k \<times> 'a) list \<Rightarrow> error + ('k \<times> 'b) list" where
  "map_values f [] = Inr []"
| "map_values f ((k, v) # d) =
     (case f v of
        Inl e \<Rightarrow> Inl e
      | Inr v' \<Rightarrow> (case map_values f d of Inl e \<Rightarrow> Inl e | Inr d' \<Rightarrow> Inr ((k, v') # d')))"

text \<open>
  \<open>max(0, x)\<close> is \<open>x\<close> when \<open>x > 0\<close> and \<open>0\<close> otherwise; \<open>x > 0\<close> is a \<open>TypeError\<close>
  unless \<open>x\<close> is a number.
\<close>

definition max0 :: "pyval \<Rightarrow> error + pyval" where
  "max0 x = (case x of
      PInt i \<Rightarrow> Inr (if i > 0 then x else PInt 0)
    | PBool b \<Rightarrow> Inr (if b then x else PInt 0)
    | PFloat f \<Rightarrow> Inr (if (case f of Finite r \<Rightarrow> r > 0 | PosInf \<Rightarrow> True | _ \<Rightarrow> False)
                       then x else PInt 0)
    | _ \<Rightarrow> Inl TypeError)"

text \<open>\<open>x.upper()\<close>: only a string has the method.\<close>

definition upper :: "pyval \<Rightarrow> error + string" where
  "upper x = (case x of PStr s \<Rightarrow> Inr (str_upper s) | _ \<Rightarrow> Inl AttributeError)"


section \<open>Construction from a mapping\<close>

text \<open>
  \<open>Base.from_dict\<close> is \<open>cls._check_keys(obj)\<close> and \<open>cls(**obj)\<close>: a parameter whose
  name is no key of \<open>obj\<close> takes the default of \<open>__init__\<close>.
\<close>

definition Resources_from_dict :: "pyval \<Rightarrow> error + pyval" where
  "Resources_from_dict obj =
     after_check (check_keys ''Resources'' obj Resources_slots)
       (Resources_init (get obj ''memory'' Required) (get obj ''vcores'' Required))"

definition File_from_dict :: "pyval \<Rightarrow> error + pyval" where
  "File_from_dict obj =
     after_check (check_keys ''File'' obj File_slots)
       (File_init (get obj ''source'' Required) (get obj ''type'' (PStr ''FILE''))
          (get obj ''visibility'' (PStr ''APPLICATION''))
          (get obj ''size'' (PInt 0)) (get obj ''timestamp'' (PInt 0)))"

fun strip_archive_ext :: "string \<Rightarrow> string list \<Rightarrow> string" where
  "strip_archive_ext name [] = name"
| "strip_archive_ext name (ext # exts) =
     (if endswith name ext then drop_last (length ext) name
      else strip_archive_ext name exts)"

text \<open>
  \<open>File._parse_file_spec\<close>. The URL parser \<open>urlparse\<close> comes from a module that is not
  part of the source at hand and from the standard library behind it; the model takes
  as a parameter the function \<open>urlparse_path\<close> that gives \<open>urlparse(source).path\<close>, or
  the exception that \<open>urlparse(source)\<close> raises. The test \<open>name is None\<close> is kept as
  the source has it: \<open>name\<close> is the string \<open>os.path.split\<close> returns.
\<close>

definition File_parse_file_spec ::
  "(pyval \<Rightarrow> error + string) \<Rightarrow> pyval \<Rightarrow> error + (pyval \<times> pyval)" where
  "File_parse_file_spec urlparse_path obj =
     (if \<not> is_dict obj then Inl (Expected_mapping ''File'')
      else if has_key obj ''file'' \<and> has_key obj ''archive'' then Inl Both_archive_and_file
      else
        and_then
          (case (if has_key obj ''file'' then Some ''file''
                 else if has_key obj ''archive'' then Some ''archive'' else None) of
             None \<Rightarrow>
               after_check (check_keys ''File'' obj (File_slots @ [''dest'']))
                 (and_then (getitem obj ''source'') (\<lambda>source.
                  and_then (upper (get obj ''type'' (PStr ''FILE''))) (\<lambda>type.
                  Inr (source, type))))
           | Some type \<Rightarrow>
               after_check
                 (check_keys ''File'' obj [''visibility'', ''size'', ''timestamp'', type, ''dest''])
                 (and_then (getitem obj type) (\<lambda>source.
                  Inr (source, str_upper type))))
          (\<lambda>(source, type).
             and_then
               (if \<not> has_key obj ''dest'' then
                  and_then (urlparse_path source) (\<lambda>source.
                    (case os_path_split source of (base, name) \<Rightarrow>
                       if PStr name = PNone then Inl Not_directories
                       else Inr (PStr source,
                                 PStr (if type = ''ARCHIVE''
                                       then strip_archive_ext name [''.zip'', ''.tar.gz'', ''.tgz'']
                                       else name))))
                else and_then (getitem obj ''dest'') (\<lambda>dest. Inr (source, dest)))
               (\<lambda>(source, dest).
                  and_then
                    (File_init source (PStr type) (get obj ''visibility'' (PStr ''APPLICATION''))
                       (get obj ''size'' (PInt 0)) (get obj ''timestamp'' (PInt 0)))
                    (\<lambda>resource. Inr (dest, resource)))))"

text \<open>
  \<open>dict(File._parse_file_spec(v) for v in files)\<close>: the specs are parsed one after the
  other, and each pair is stored before the next spec is parsed; a destination
  without a hash cannot be a key.
\<close>

fun parse_file_specs ::
  "(pyval \<Rightarrow> error + string) \<Rightarrow> pyval list \<Rightarrow> (pyval \<times> pyval) list
     \<Rightarrow> error + (pyval \<times> pyval) list" where
  "parse_file_specs urlparse_path [] acc = Inr acc"
| "parse_file_specs urlparse_path (v # vs) acc =
     (case File_parse_file_spec urlparse_path v of
        Inl e \<Rightarrow> Inl e
      | Inr (dest, resource) \<Rightarrow>
          if \<not> hashable dest then Inl TypeError
          else parse_file_specs urlparse_path vs (dict_insert acc dest resource))"

definition Service_from_dict :: "(pyval \<Rightarrow> error + string) \<Rightarrow> pyval \<Rightarrow> error + pyval" where
  "Service_from_dict urlparse_path obj =
     after_check (check_keys ''Service'' obj Service_slots)
       (and_then
          (let resources = get obj ''resources'' PNone
           in if resources \<noteq> PNone then Resources_from_dict resources else Inr resources)
          (\<lambda>resources.
             and_then
               (case get obj ''files'' PNone of
                  PList vs \<Rightarrow> and_then (parse_file_specs urlparse_path vs []) (\<lambda>d. Inr (PDict d))
                | PDict d \<Rightarrow> and_then (map_values File_from_dict d) (\<lambda>d'. Inr (PDict d'))
                | files \<Rightarrow> Inr files)
               (\<lambda>files.
                  Service_init (get obj ''commands'' PNone) resources
                    (get obj ''instances'' (PInt 1)) files
                    (get obj ''env'' PNone) (get obj ''depends'' PNone))))"

definition Job_from_dict :: "(pyval \<Rightarrow> error + string) \<Rightarrow> pyval \<Rightarrow> error + pyval" where
  "Job_from_dict urlparse_path obj =
     after_check (check_keys ''Job'' obj Job_slots)
       (let name = get obj ''name'' PNone;
            queue = get obj ''queue'' PNone
        in and_then
             (case get obj ''services'' PNone of
                PDict d \<Rightarrow>
                  and_then (map_values (Service_from_dict urlparse_path) d) (\<lambda>d'. Inr (PDict d'))
              | services \<Rightarrow> Inr services)
             (\<lambda>services. Job_init services name queue))"

definition ResourceUsageReport_keys :: "string list" where
  "ResourceUsageReport_keys = map to_camel_case ResourceUsageReport_slots"

text \<open>\<open>Resources(vcores=max(0, val['vcores']), memory=max(0, val['memory']))\<close>\<close>

definition clamped_Resources :: "pyval \<Rightarrow> error + pyval" where
  "clamped_Resources val =
     and_then (getitem val ''vcores'') (\<lambda>v.
     and_then (max0 v) (\<lambda>vcores.
     and_then (getitem val ''memory'') (\<lambda>m.
     and_then (max0 m) (\<lambda>memory.
     Resources_init memory vcores))))"

definition ResourceUsageReport_from_dict :: "pyval \<Rightarrow> error + pyval" where
  "ResourceUsageReport_from_dict obj =
     after_check (check_keys ''ResourceUsageReport'' obj ResourceUsageReport_keys)
       (and_then (getitem obj ''memorySeconds'') (\<lambda>memory_seconds.
        and_then (getitem obj ''vcoreSeconds'') (\<lambda>vcore_seconds.
        and_then (getitem obj ''numUsedContainers'') (\<lambda>n.
        and_then (max0 n) (\<lambda>num_used_containers.
        and_then (and_then (getitem obj ''neededResources'') clamped_Resources)
          (\<lambda>needed_resources.
        and_then (and_then (getitem obj ''reservedResources'') clamped_Resources)
          (\<lambda>reserved_resources.
        and_then (and_then (getitem obj ''usedResources'') clamped_Resources)
          (\<lambda>used_resources.
        ResourceUsageReport_init memory_seconds vcore_seconds num_used_containers
          needed_resources reserved_resources used_resources))))))))"

text \<open>
  \<open>_datetime_from_millis(x)\<close> is \<open>_EPOCH + timedelta(milliseconds=x)\<close>. For an integer
  the \<open>timedelta\<close> is exact; for a float the library rounds to a microsecond with
  floating-point arithmetic, which the model takes as the parameter \<open>td_float\<close> (the
  microseconds of the \<open>timedelta\<close>, or the exception). A \<open>datetime\<close> lies between the
  years 1 and 9999, and so does every \<open>timedelta\<close> that can be added to \<open>_EPOCH\<close>.
\<close>

definition datetime_min :: int where
  "datetime_min = - 62135596800000000"

definition datetime_max :: int where
  "datetime_max = 253402300799999999"

definition datetime_from_millis :: "(pyfloat \<Rightarrow> error + int) \<Rightarrow> pyval \<Rightarrow> error + pyval" where
  "datetime_from_millis td_float x =
     and_then
       (case x of
          PInt i \<Rightarrow> Inr (1000 * i)
        | PBool b \<Rightarrow> Inr (if b then 1000 else 0)
        | PFloat f \<Rightarrow> td_float f
        | _ \<Rightarrow> Inl TypeError)
       (\<lambda>us. if datetime_min \<le> us \<and> us \<le> datetime_max then Inr (PDatetime us)
             else Inl OverflowError)"

definition ApplicationReport_keys :: "string list" where
  "ApplicationReport_keys = map to_camel_case ApplicationReport_slots"

definition ApplicationReport_from_dict ::
  "(pyfloat \<Rightarrow> error + int) \<Rightarrow> pyval \<Rightarrow> error + pyval" where
  "ApplicationReport_from_dict td_float obj =
     after_check (check_keys ''ApplicationReport'' obj ApplicationReport_keys)
       (let kwargs = (\<lambda>k. get obj (to_camel_case k) PNone)
        in and_then (ResourceUsageReport_from_dict (kwargs ''usage'')) (\<lambda>usage.
           and_then (datetime_from_millis td_float (kwargs ''start_time'')) (\<lambda>start_time.
           and_then (datetime_from_millis td_float (kwargs ''finish_time'')) (\<lambda>finish_time.
           ApplicationReport_init (kwargs ''id'') (kwargs ''name'') (kwargs ''user'')
             (kwargs ''queue'') (kwargs ''tags'') (kwargs ''host'') (kwargs ''port'')
             (kwargs ''tracking_url'') (kwargs ''state'') (kwargs ''final_status'')
             (kwargs ''progress'') usage (kwargs ''diagnostics'') start_time finish_time))))"


section \<open>The wire form\<close>

text \<open>
  Modelled from the spec: the message classes \<open>_proto.Resources\<close>, \<open>_proto.File\<close>,
  \<open>_proto.Service\<close>, \<open>_proto.Job\<close> and \<open>_proto.ResourceUsageReport\<close> are generated
  code that is not part of the source at hand. The spec says of them that each entity
  has a message type whose field names correspond one to one to the entity's, that an
  enum field is an integer code on the wire and a canonical upper-case name inside,
  and it gives no width for the integer fields. A message is a value with typed
  fields, in the order of the entity's \<open>__slots__\<close>; an integer field holds any
  integer; an enum field holds one of the enum's values, and \<open>Name\<close> gives its name;
  a map field is the list of its items.
\<close>

datatype File_Type = FILE | ARCHIVE

datatype File_Visibility = APPLICATION | PUBLIC | PRIVATE

datatype Resources_msg = Resources_msg int int

datatype File_msg = File_msg string File_Type File_Visibility int int

datatype Service_msg =
  Service_msg "string list" Resources_msg int "(string \<times> File_msg) list"
    "(string \<times> string) list" "string list"

datatype Job_msg = Job_msg string string "(string \<times> Service_msg) list"

datatype ResourceUsageReport_msg =
  ResourceUsageReport_msg int int int Resources_msg Resources_msg Resources_msg

datatype message =
    M_Resources Resources_msg
  | M_File File_msg
  | M_Service Service_msg
  | M_Job Job_msg
  | M_ResourceUsageReport ResourceUsageReport_msg













section \<open>Conversion to and from the wire form\<close>






text \<open>
  \<open>from_protobuf\<close>. \<open>Base.from_protobuf\<close> (class \<open>Resources\<close>) and \<open>File.from_protobuf\<close>
  check the type of the message; the other three read the fields at once, and a
  message of another type lacks them.
\<close>

definition Resources_from_protobuf :: "message \<Rightarrow> error + pyval" where
  "Resources_from_protobuf msg = (case msg of
      M_Resources (Resources_msg memory vcores) \<Rightarrow> Resources_init (PInt memory) (PInt vcores)
    | _ \<Rightarrow> Inl (Expected_message ''Resources''))"





definition ResourceUsageReport_from_protobuf :: "message \<Rightarrow> error + pyval" where
  "ResourceUsageReport_from_protobuf obj = (case obj of
      M_ResourceUsageReport
        (ResourceUsageReport_msg memory_seconds vcore_seconds num_used_containers
           needed reserved used) \<Rightarrow>
        and_then (Resources_from_protobuf (M_Resources needed)) (\<lambda>needed_resources.
        and_then (Resources_from_protobuf (M_Resources reserved)) (\<lambda>reserved_resources.
        and_then (Resources_from_protobuf (M_Resources used)) (\<lambda>used_resources.
        ResourceUsageReport_init (PInt memory_seconds) (PInt vcore_seconds)
          (PInt num_used_containers) needed_resources reserved_resources used_resources)))
    | _ \<Rightarrow> Inl AttributeError)"


section \<open>Proper values and what the wire returns\<close>



text \<open>
  The wire form has integers and no booleans. The wire image of an object is the
  object with every \<open>bool\<close> in the value of a slot, a list or a dict replaced by the
  \<open>int\<close> it equals; it is what \<open>from_protobuf\<close> will be shown to return for the message
  of a valid entity.
\<close>

fun wire_image :: "pyval \<Rightarrow> pyval"
  and wire_image_list :: "pyval list \<Rightarrow> pyval list"
  and wire_image_items :: "(pyval \<times> pyval) list \<Rightarrow> (pyval \<times> pyval) list"
where
  "wire_image (PBool b) = PInt (if b then 1 else 0)"
| "wire_image (PList xs) = PList (wire_image_list xs)"
| "wire_image (PDict d) = PDict (wire_image_items d)"
| "wire_image (Resources a b) = Resources (wire_image a) (wire_image b)"
| "wire_image (File a b c d e) =
     File (wire_image a) (wire_image b) (wire_image c) (wire_image d) (wire_image e)"
| "wire_image (Service a b c d e f) =
     Service (wire_image a) (wire_image b) (wire_image c) (wire_image d) (wire_image e)
       (wire_image f)"
| "wire_image (Job a b c) = Job (wire_image a) (wire_image b) (wire_image c)"
| "wire_image (ResourceUsageReport a b c d e f) =
     ResourceUsageReport (wire_image a) (wire_image b) (wire_image c) (wire_image d)
       (wire_image e) (wire_image f)"
| "wire_image x = x"
| "wire_image_list [] = []"
| "wire_image_list (x # xs) = wire_image x # wire_image_list xs"
| "wire_image_items [] = []"
| "wire_image_items ((k, v) # d) = (k, wire_image v) # wire_image_items d"


text \<open>
  Where a statement needs a concrete parser for the parameter \<open>urlparse_path\<close>, it
  uses this one, which takes a string for a bare path: it is what \<open>urlparse(s).path\<close>
  is for a string \<open>s\<close> that has no scheme, network location, parameters, query or
  fragment, as the sources in those statements.
\<close>

definition urlparse_plain_path :: "pyval \<Rightarrow> error + string" where
  "urlparse_plain_path source = (case source of PStr s \<Rightarrow> Inr s | _ \<Rightarrow> Inl TypeError)"


section \<open>Unfolding the model\<close>

lemma atom_eq_PStr [simp]:
  "atom_eq (PStr a) y = (y = PStr a)"
  "atom_eq x (PStr a) = (x = PStr a)"
  by (cases y; cases x; auto simp: atom_eq_def float_of_def hashable_def)+

lemmas check_defs =
  check_is_bounded_int_def check_is_type_def check_in_set_def check_is_list_of_def
  check_is_dict_of_def check_required_def check_keys_def

lemmas dict_defs = get_def getitem_def has_key_def is_dict_def dict_values_def

lemmas slot_defs =
  slots_def Resources_slots_def File_slots_def Service_slots_def Job_slots_def
  ResourceUsageReport_slots_def ApplicationReport_slots_def

lemmas flow_defs = after_check_def and_then_def

lemmas type_defs =
  isinstance_def int_of_def hashable_def type_name_def is_list_of_def is_dict_of_def
  truthy_def if_none_def

lemmas string_defs =
  str_upper_def upper_char_def lower_char_def is_cased_def str_title_def to_camel_case_def
  endswith_def drop_last_def os_path_split_def

lemma ResourceUsageReport_keys_eq:
  "ResourceUsageReport_keys =
     [''memorySeconds'', ''vcoreSeconds'', ''numUsedContainers'',
      ''neededResources'', ''reservedResources'', ''usedResources'']"
  by (simp add: ResourceUsageReport_keys_def ResourceUsageReport_slots_def string_defs)

lemma ApplicationReport_keys_eq:
  "ApplicationReport_keys =
     [''id'', ''name'', ''user'', ''queue'', ''tags'', ''host'', ''port'',
      ''trackingUrl'', ''state'', ''finalStatus'', ''progress'', ''usage'',
      ''diagnostics'', ''startTime'', ''finishTime'']"
  by (simp add: ApplicationReport_keys_def ApplicationReport_slots_def string_defs)

lemma after_check_Inr: "after_check c k = Inr x \<Longrightarrow> k = Inr x"
  by (cases c) (simp_all add: after_check_def)

lemma and_then_Inr: "and_then m f = Inr x \<Longrightarrow> \<exists>y. m = Inr y \<and> f y = Inr x"
  by (cases m) (simp_all add: and_then_def)

lemma check_is_bounded_int_PInt:
  "check_is_bounded_int field (PInt i) mn nullable =
     (if i < mn then Some (Below_min field mn) else None)"
  by (simp add: check_defs type_defs)

lemma Resources_validate_ints:
  "Resources_validate (Resources (PInt m) (PInt v)) False =
     (if v < 0 then Some (Below_min ''vcores'' 0)
      else if m < 0 then Some (Below_min ''memory'' 0) else None)"
  by (simp add: Resources_validate_def check_is_bounded_int_PInt)

lemma Resources_init_ints:
  "Resources_init (PInt m) (PInt v) =
     (if v < 0 then Inl (Below_min ''vcores'' 0)
      else if m < 0 then Inl (Below_min ''memory'' 0)
      else Inr (Resources (PInt m) (PInt v)))"
  by (simp add: Resources_init_def Resources_validate_def check_is_bounded_int_PInt
      check_required_def slot_defs flow_defs)

lemma max0_PInt: "max0 (PInt i) = Inr (PInt (max 0 i))"
  by (simp add: max0_def max_def)

lemma clamped_Resources_ints:
  "clamped_Resources (PDict [(PStr ''memory'', PInt m), (PStr ''vcores'', PInt v)])
     = Inr (Resources (PInt (max 0 m)) (PInt (max 0 v)))"
  by (simp add: clamped_Resources_def max0_PInt Resources_init_ints dict_defs flow_defs)

lemma ResourceUsageReport_init_ints:
  assumes "Resources_validate r1 False = None" "Resources_validate r2 False = None"
    "Resources_validate r3 False = None"
    "isinstance r1 T_Resources" "isinstance r2 T_Resources" "isinstance r3 T_Resources"
  shows "ResourceUsageReport_init (PInt ms) (PInt vs) (PInt n) r1 r2 r3 =
     (if ms < 0 then Inl (Below_min ''memory_seconds'' 0)
      else if vs < 0 then Inl (Below_min ''vcore_seconds'' 0)
      else if n < 0 then Inl (Below_min ''num_used_containers'' 0)
      else Inr (ResourceUsageReport (PInt ms) (PInt vs) (PInt n) r1 r2 r3))"
  using assms
  by (simp add: ResourceUsageReport_init_def ResourceUsageReport_validate_def
      check_is_bounded_int_PInt check_is_type_def after_check_def)

lemma Resources_from_protobuf_ints:
  "Resources_from_protobuf (M_Resources (Resources_msg m v)) =
     (if v < 0 then Inl (Below_min ''vcores'' 0)
      else if m < 0 then Inl (Below_min ''memory'' 0)
      else Inr (Resources (PInt m) (PInt v)))"
  by (simp add: Resources_from_protobuf_def Resources_init_ints)

lemma Job_init_without_name: "\<exists>e. Job_init services PNone queue = Inl e"
  by (cases "check_required (Job PNone queue services)")
     (simp_all add: Job_init_def Job_validate_def check_is_type_def isinstance_def
        after_check_def)

lemma os_path_split_directory: "snd (os_path_split (q @ ''/'')) = []"
  by (simp add: os_path_split_def Let_def)


section \<open>Valid entities and their wire images\<close>





lemma isinstance_File: "isinstance x T_File \<longleftrightarrow> (\<exists>a b c d e. x = File a b c d e)"
  by (cases x) (simp_all add: isinstance_def)

lemma isinstance_Service: "isinstance x T_Service \<longleftrightarrow> (\<exists>a b c d e f. x = Service a b c d e f)"
  by (cases x) (simp_all add: isinstance_def)

lemma isinstance_PInt [simp]: "isinstance (PInt i) T_int" "int_of (PInt i) = i"
  by (simp_all add: isinstance_def int_of_def)

lemma isinstance_PStr [simp]: "isinstance (PStr s) T_str"
  by (simp add: isinstance_def)
















lemma length_wire_image_items [simp]: "length (wire_image_items d) = length d"
  by (induction d) auto

lemma map_fst_wire_image_items [simp]: "map fst (wire_image_items d) = map fst d"
  by (induction d) auto













































section \<open>Resources as a report value and as a request\<close>

text \<open>
  Claim C2. \<open>Resources(memory=0, vcores=0)\<close> is constructed: on its own a
  \<open>Resources\<close> is validated with the minimum 0. A \<open>Service\<close> whose \<open>resources\<close> slot
  holds that object never validates, whatever its other slots hold:
  \<open>Service._validate\<close> checks \<open>instances\<close> and then validates \<open>resources\<close> as a request,
  with the minimum 1, so unless \<open>instances\<close> is rejected first the exception is
  \<open>ValueError("vcores must be >= 1")\<close>; and \<open>Service(...)\<close> with these resources raises.
\<close>

theorem Resources_zero_valid_alone_invalid_in_Service:
  "Resources_init (PInt 0) (PInt 0) = Inr (Resources (PInt 0) (PInt 0))
   \<and> Service_validate
         (Service commands (Resources (PInt 0) (PInt 0)) instances files env depends)
       = Some (case check_is_bounded_int ''instances'' instances 0 False of
                 Some e \<Rightarrow> e | None \<Rightarrow> Below_min ''vcores'' 1)
   \<and> (\<exists>e. Service_init commands (Resources (PInt 0) (PInt 0)) instances files env depends
            = Inl e)"
proof -
  let ?R = "Resources (PInt 0) (PInt 0)"
  have alone: "Resources_init (PInt 0) (PInt 0) = Inr ?R"
    by (simp add: Resources_init_def Resources_validate_def check_defs slot_defs
        flow_defs type_defs)
  have request: "Service_validate (Service c ?R i f e d)
      = Some (case check_is_bounded_int ''instances'' i 0 False of
                Some e \<Rightarrow> e | None \<Rightarrow> Below_min ''vcores'' 1)" for c i f e d
    by (cases "check_is_bounded_int ''instances'' i 0 False")
       (simp_all add: Service_validate_def Resources_validate_def check_is_bounded_int_def
          check_is_type_def isinstance_def int_of_def)
  have "\<exists>e. Service_init commands ?R instances files env depends = Inl e"
    using request [of commands instances "if_none files (PDict [])"
        "if_none env (PDict [])" "if_none depends (PList [])"]
    by (cases "check_required (Service commands ?R instances (if_none files (PDict []))
                  (if_none env (PDict [])) (if_none depends (PList [])))")
       (simp_all add: Service_init_def after_check_def)
  with alone request show ?thesis by blast
qed

theorem Resources_zero_valid_alone_invalid_in_Service_witness:
  "Resources_init (PInt 0) (PInt 0) = Inr (Resources (PInt 0) (PInt 0))
   \<and> Service_validate
         (Service (PList [PStr ''run'']) (Resources (PInt 0) (PInt 0)) (PInt 1)
            (PDict []) (PDict []) (PList []))
       = Some (Below_min ''vcores'' 1)
   \<and> (\<exists>e. Service_init (PList [PStr ''run'']) (Resources (PInt 0) (PInt 0)) (PInt 1)
              PNone PNone PNone = Inl e)"
  using Resources_zero_valid_alone_invalid_in_Service
    [of "PList [PStr ''run'']" "PInt 1" "PDict []" "PDict []" "PList []"]
    Resources_zero_valid_alone_invalid_in_Service
    [of "PList [PStr ''run'']" "PInt 1" PNone PNone PNone]
  by (simp add: check_defs type_defs)


section \<open>A job needs a name before it needs a service\<close>

text \<open>
  Claim C3. \<open>Job.from_dict({'services': {}})\<close> raises, but not the emptiness error:
  \<open>Job.from_dict\<close> passes \<open>name=obj.get('name')\<close>, which is \<open>None\<close> here, and
  \<open>Job._validate\<close> checks \<open>name\<close> first, so the exception is
  \<open>TypeError("name must be an instance of str")\<close> and the check that raises
  \<open>ValueError("There must be at least one service")\<close> is not reached.
\<close>

theorem Job_from_dict_empty_services_raises_for_name:
  "Job_from_dict urlparse_path (PDict [(PStr ''services'', PDict [])])
     = Inl (Not_instance ''name'' ''str'' False)"
  by (simp add: Job_from_dict_def Job_init_def Job_validate_def check_defs dict_defs
      slot_defs flow_defs type_defs)

text \<open>
  Claim C4. A mapping that has no key \<open>name\<close> never gives a \<open>Job\<close>: \<open>Job.from_dict\<close>
  calls \<open>cls(name=obj.get('name'), queue=obj.get('queue'), ...)\<close>, so the constructor's
  defaults \<open>'skein'\<close> and \<open>''\<close> are not used, and \<open>name = None\<close> fails the type check.
  For a mapping that holds one valid service and nothing else the exception is
  \<open>TypeError("name must be an instance of str")\<close>.
\<close>

theorem Job_from_dict_without_name_raises:
  "(\<not> has_key obj ''name'' \<longrightarrow> (\<exists>e. Job_from_dict urlparse_path obj = Inl e))
   \<and> Job_from_dict urlparse_path
        (PDict [(PStr ''services'',
           PDict [(PStr ''worker'',
             PDict [(PStr ''commands'', PList [PStr ''run'']),
                    (PStr ''resources'',
                       PDict [(PStr ''memory'', PInt 1), (PStr ''vcores'', PInt 1)])])])])
      = Inl (Not_instance ''name'' ''str'' False)"
proof (intro conjI impI)
  assume "\<not> has_key obj ''name''"
  then have name: "get obj ''name'' PNone = PNone"
    by (cases obj) (auto simp: has_key_def get_def)
  show "\<exists>e. Job_from_dict urlparse_path obj = Inl e"
  proof (cases "Job_from_dict urlparse_path obj")
    case (Inl e)
    then show ?thesis by blast
  next
    case (Inr job)
    then obtain services where
      "Job_init services PNone (get obj ''queue'' PNone) = Inr job"
      unfolding Job_from_dict_def Let_def name
      by (blast dest: after_check_Inr and_then_Inr)
    with Job_init_without_name [of services "get obj ''queue'' PNone"]
    show ?thesis by simp
  qed
next
  show "Job_from_dict urlparse_path
        (PDict [(PStr ''services'',
           PDict [(PStr ''worker'',
             PDict [(PStr ''commands'', PList [PStr ''run'']),
                    (PStr ''resources'',
                       PDict [(PStr ''memory'', PInt 1), (PStr ''vcores'', PInt 1)])])])])
      = Inl (Not_instance ''name'' ''str'' False)"
    by (simp add: Job_from_dict_def Job_init_def Job_validate_def Service_from_dict_def
        Service_init_def Service_validate_def Resources_from_dict_def Resources_init_def
        Resources_validate_def check_defs dict_defs slot_defs flow_defs type_defs)
qed

theorem Job_from_dict_without_name_raises_witness:
  "\<not> has_key (PDict [(PStr ''queue'', PStr ''default''), (PStr ''services'', PDict [])]) ''name''
   \<and> (\<exists>e. Job_from_dict urlparse_plain_path
            (PDict [(PStr ''queue'', PStr ''default''), (PStr ''services'', PDict [])])
          = Inl e)"
  using Job_from_dict_without_name_raises
    [of "PDict [(PStr ''queue'', PStr ''default''), (PStr ''services'', PDict [])]"
        urlparse_plain_path]
  by (simp add: has_key_def)


section \<open>Clamping in the usage report\<close>

text \<open>
  Claim C5, as stated, fails: built from a mapping whose \<open>memorySeconds\<close> is \<open>-1\<close>, the
  report is not clamped to \<open>memory_seconds = 0\<close>; \<open>ResourceUsageReport.from_dict\<close> passes
  \<open>obj['memorySeconds']\<close> on as it is and the constructor raises
  \<open>ValueError("memory_seconds must be >= 0")\<close>.
\<close>

theorem ResourceUsageReport_from_dict_negative_memory_seconds:
  "ResourceUsageReport_from_dict
     (PDict [(PStr ''memorySeconds'', PInt (- 1)), (PStr ''vcoreSeconds'', PInt 0),
             (PStr ''numUsedContainers'', PInt 0),
             (PStr ''neededResources'',
                PDict [(PStr ''memory'', PInt 0), (PStr ''vcores'', PInt 0)]),
             (PStr ''reservedResources'',
                PDict [(PStr ''memory'', PInt 0), (PStr ''vcores'', PInt 0)]),
             (PStr ''usedResources'',
                PDict [(PStr ''memory'', PInt 0), (PStr ''vcores'', PInt 0)])])
   = Inl (Below_min ''memory_seconds'' 0)"
  by (simp add: ResourceUsageReport_from_dict_def ResourceUsageReport_init_def
      ResourceUsageReport_validate_def ResourceUsageReport_keys_eq clamped_Resources_def
      max0_def Resources_init_def Resources_validate_def check_defs dict_defs slot_defs
      flow_defs type_defs)

text \<open>
  Claim C5, amended. For integer inputs, \<open>ResourceUsageReport.from_dict\<close> clamps
  \<open>num_used_containers\<close> and the \<open>memory\<close> and \<open>vcores\<close> of each of the three nested
  \<open>Resources\<close> to 0 (\<open>max(0, x)\<close>); it takes \<open>memory_seconds\<close> and \<open>vcore_seconds\<close> as
  given, and a negative one of these is rejected by validation. \<open>from_protobuf\<close>
  clamps nothing: the report holds the message's integers as they are when none is
  negative, and the first negative field in validation order is rejected.
\<close>

theorem ResourceUsageReport_clamps_on_mapping_path_only:
  "ResourceUsageReport_from_dict
     (PDict [(PStr ''memorySeconds'', PInt ms), (PStr ''vcoreSeconds'', PInt vs),
             (PStr ''numUsedContainers'', PInt n),
             (PStr ''neededResources'',
                PDict [(PStr ''memory'', PInt m1), (PStr ''vcores'', PInt v1)]),
             (PStr ''reservedResources'',
                PDict [(PStr ''memory'', PInt m2), (PStr ''vcores'', PInt v2)]),
             (PStr ''usedResources'',
                PDict [(PStr ''memory'', PInt m3), (PStr ''vcores'', PInt v3)])])
     = (if ms < 0 then Inl (Below_min ''memory_seconds'' 0)
        else if vs < 0 then Inl (Below_min ''vcore_seconds'' 0)
        else Inr (ResourceUsageReport (PInt ms) (PInt vs) (PInt (max 0 n))
               (Resources (PInt (max 0 m1)) (PInt (max 0 v1)))
               (Resources (PInt (max 0 m2)) (PInt (max 0 v2)))
               (Resources (PInt (max 0 m3)) (PInt (max 0 v3)))))
   \<and> ResourceUsageReport_from_protobuf
       (M_ResourceUsageReport
          (ResourceUsageReport_msg ms vs n
             (Resources_msg m1 v1) (Resources_msg m2 v2) (Resources_msg m3 v3)))
     = (if v1 < 0 then Inl (Below_min ''vcores'' 0)
        else if m1 < 0 then Inl (Below_min ''memory'' 0)
        else if v2 < 0 then Inl (Below_min ''vcores'' 0)
        else if m2 < 0 then Inl (Below_min ''memory'' 0)
        else if v3 < 0 then Inl (Below_min ''vcores'' 0)
        else if m3 < 0 then Inl (Below_min ''memory'' 0)
        else if ms < 0 then Inl (Below_min ''memory_seconds'' 0)
        else if vs < 0 then Inl (Below_min ''vcore_seconds'' 0)
        else if n < 0 then Inl (Below_min ''num_used_containers'' 0)
        else Inr (ResourceUsageReport (PInt ms) (PInt vs) (PInt n)
               (Resources (PInt m1) (PInt v1)) (Resources (PInt m2) (PInt v2))
               (Resources (PInt m3) (PInt v3))))"
proof (rule conjI)
  let ?obj = "PDict [(PStr ''memorySeconds'', PInt ms), (PStr ''vcoreSeconds'', PInt vs),
             (PStr ''numUsedContainers'', PInt n),
             (PStr ''neededResources'',
                PDict [(PStr ''memory'', PInt m1), (PStr ''vcores'', PInt v1)]),
             (PStr ''reservedResources'',
                PDict [(PStr ''memory'', PInt m2), (PStr ''vcores'', PInt v2)]),
             (PStr ''usedResources'',
                PDict [(PStr ''memory'', PInt m3), (PStr ''vcores'', PInt v3)])]"
  have keys: "check_keys ''ResourceUsageReport'' ?obj ResourceUsageReport_keys = None"
    by (simp add: check_keys_def ResourceUsageReport_keys_eq)
  have valid: "Resources_validate (Resources (PInt (max 0 m)) (PInt (max 0 v))) False = None"
    for m v
    by (simp add: Resources_validate_ints)
  show "ResourceUsageReport_from_dict ?obj
     = (if ms < 0 then Inl (Below_min ''memory_seconds'' 0)
        else if vs < 0 then Inl (Below_min ''vcore_seconds'' 0)
        else Inr (ResourceUsageReport (PInt ms) (PInt vs) (PInt (max 0 n))
               (Resources (PInt (max 0 m1)) (PInt (max 0 v1)))
               (Resources (PInt (max 0 m2)) (PInt (max 0 v2)))
               (Resources (PInt (max 0 m3)) (PInt (max 0 v3)))))"
    unfolding ResourceUsageReport_from_dict_def keys
    by (simp add: getitem_def clamped_Resources_ints max0_PInt flow_defs
        ResourceUsageReport_init_ints valid isinstance_def)
next
  have raise: "and_then (if c then Inl e else k) f = (if c then Inl e else and_then k f)"
    for c e k and f :: "pyval \<Rightarrow> error + pyval"
    by (simp add: and_then_def)
  have return: "and_then (Inr x) f = f x" for x and f :: "pyval \<Rightarrow> error + pyval"
    by (simp add: and_then_def)
  show "ResourceUsageReport_from_protobuf
       (M_ResourceUsageReport
          (ResourceUsageReport_msg ms vs n
             (Resources_msg m1 v1) (Resources_msg m2 v2) (Resources_msg m3 v3)))
     = (if v1 < 0 then Inl (Below_min ''vcores'' 0)
        else if m1 < 0 then Inl (Below_min ''memory'' 0)
        else if v2 < 0 then Inl (Below_min ''vcores'' 0)
        else if m2 < 0 then Inl (Below_min ''memory'' 0)
        else if v3 < 0 then Inl (Below_min ''vcores'' 0)
        else if m3 < 0 then Inl (Below_min ''memory'' 0)
        else if ms < 0 then Inl (Below_min ''memory_seconds'' 0)
        else if vs < 0 then Inl (Below_min ''vcore_seconds'' 0)
        else if n < 0 then Inl (Below_min ''num_used_containers'' 0)
        else Inr (ResourceUsageReport (PInt ms) (PInt vs) (PInt n)
               (Resources (PInt m1) (PInt v1)) (Resources (PInt m2) (PInt v2))
               (Resources (PInt m3) (PInt v3))))"
    unfolding ResourceUsageReport_from_protobuf_def message.case
      ResourceUsageReport_msg.case Resources_from_protobuf_ints raise return
    by (simp add: ResourceUsageReport_init_ints Resources_validate_ints isinstance_def)
qed

theorem ResourceUsageReport_clamps_on_mapping_path_only_witness:
  "ResourceUsageReport_from_dict
     (PDict [(PStr ''memorySeconds'', PInt 5), (PStr ''vcoreSeconds'', PInt 7),
             (PStr ''numUsedContainers'', PInt (- 1)),
             (PStr ''neededResources'',
                PDict [(PStr ''memory'', PInt (- 1)), (PStr ''vcores'', PInt (- 1))]),
             (PStr ''reservedResources'',
                PDict [(PStr ''memory'', PInt 0), (PStr ''vcores'', PInt 0)]),
             (PStr ''usedResources'',
                PDict [(PStr ''memory'', PInt 2048), (PStr ''vcores'', PInt 2)])])
     = Inr (ResourceUsageReport (PInt 5) (PInt 7) (PInt 0)
              (Resources (PInt 0) (PInt 0)) (Resources (PInt 0) (PInt 0))
              (Resources (PInt 2048) (PInt 2)))
   \<and> ResourceUsageReport_from_protobuf
       (M_ResourceUsageReport
          (ResourceUsageReport_msg 5 7 (- 1)
             (Resources_msg (- 1) (- 1)) (Resources_msg 0 0) (Resources_msg 2048 2)))
     = Inl (Below_min ''vcores'' 0)"
  using ResourceUsageReport_clamps_on_mapping_path_only
    [of 5 7 "- 1" "- 1" "- 1" 0 0 2048 2]
  by simp


section \<open>The shorthand file spec\<close>

text \<open>
  Claim C6. Parsing \<open>{'archive': 'a/b/data.tar.gz'}\<close>, where the path component of
  the source is the source itself, gives the destination \<open>'data'\<close> and a \<open>File\<close> of type
  \<open>'ARCHIVE'\<close> with source \<open>'a/b/data.tar.gz'\<close>.
\<close>

theorem parse_file_spec_archive_shorthand:
  "urlparse_path (PStr ''a/b/data.tar.gz'') = Inr ''a/b/data.tar.gz'' \<Longrightarrow>
   File_parse_file_spec urlparse_path (PDict [(PStr ''archive'', PStr ''a/b/data.tar.gz'')])
     = Inr (PStr ''data'',
            File (PStr ''a/b/data.tar.gz'') (PStr ''ARCHIVE'') (PStr ''APPLICATION'')
              (PInt 0) (PInt 0))"
  by (simp add: File_parse_file_spec_def File_init_def File_validate_def string_defs
      check_defs dict_defs slot_defs flow_defs type_defs)

theorem parse_file_spec_archive_shorthand_witness:
  "urlparse_plain_path (PStr ''a/b/data.tar.gz'')
     = Inr ''a/b/data.tar.gz''
   \<and> File_parse_file_spec urlparse_plain_path
         (PDict [(PStr ''archive'', PStr ''a/b/data.tar.gz'')])
     = Inr (PStr ''data'',
            File (PStr ''a/b/data.tar.gz'') (PStr ''ARCHIVE'') (PStr ''APPLICATION'')
              (PInt 0) (PInt 0))"
  using parse_file_spec_archive_shorthand [of urlparse_plain_path]
  by (simp add: urlparse_plain_path_def)

text \<open>
  Claim C7. A spec \<open>{'file': source}\<close> whose source has a path component that ends in
  \<open>/\<close> is not rejected: \<open>os.path.split\<close> gives the name \<open>''\<close>, the test \<open>name is None\<close>
  is false for a string, and the parse returns the destination \<open>''\<close> with a \<open>File\<close> for
  the directory.
\<close>

theorem parse_file_spec_accepts_directory:
  "urlparse_path source = Inr (q @ ''/'') \<Longrightarrow>
   File_parse_file_spec urlparse_path (PDict [(PStr ''file'', source)])
     = Inr (PStr [],
            File (PStr (q @ ''/'')) (PStr ''FILE'') (PStr ''APPLICATION'') (PInt 0) (PInt 0))"
  using os_path_split_directory [of q]
  by (cases "os_path_split (q @ ''/'')")
     (simp add: File_parse_file_spec_def File_init_def File_validate_def str_upper_def
        upper_char_def check_defs dict_defs slot_defs flow_defs type_defs)

theorem parse_file_spec_accepts_directory_witness:
  "urlparse_plain_path (PStr ''a/b/'') = Inr (''a/b'' @ ''/'')
   \<and> File_parse_file_spec urlparse_plain_path
         (PDict [(PStr ''file'', PStr ''a/b/'')])
     = Inr (PStr [],
            File (PStr ''a/b/'') (PStr ''FILE'') (PStr ''APPLICATION'') (PInt 0) (PInt 0))"
  using parse_file_spec_accepts_directory [of urlparse_plain_path "PStr ''a/b/''" "''a/b''"]
  by (simp add: urlparse_plain_path_def)

text \<open>
  Claim C10. With the canonical keys, the parser upper-cases the \<open>type\<close>:
  \<open>{'source': s, 'type': 'archive'}\<close> parses to a \<open>File\<close> of type \<open>'ARCHIVE'\<close> (whose
  source is the path component \<open>p\<close> of \<open>s\<close>, and whose destination is the last segment
  of \<open>p\<close> without an archive extension). \<open>File(source=s, type='archive')\<close> and
  \<open>File.from_dict\<close> of the same mapping raise \<open>ValueError("type must be in ...")\<close>, the
  set being \<open>{'FILE', 'ARCHIVE'}\<close>.
\<close>

theorem parse_file_spec_uppercases_type:
  "urlparse_path (PStr s) = Inr p \<Longrightarrow>
   File_parse_file_spec urlparse_path
       (PDict [(PStr ''source'', PStr s), (PStr ''type'', PStr ''archive'')])
     = Inr (PStr (strip_archive_ext (snd (os_path_split p)) [''.zip'', ''.tar.gz'', ''.tgz'']),
            File (PStr p) (PStr ''ARCHIVE'') (PStr ''APPLICATION'') (PInt 0) (PInt 0))
   \<and> File_init (PStr s) (PStr ''archive'') (PStr ''APPLICATION'') (PInt 0) (PInt 0)
     = Inl (Not_in_set ''type'' {''FILE'', ''ARCHIVE''})
   \<and> File_from_dict (PDict [(PStr ''source'', PStr s), (PStr ''type'', PStr ''archive'')])
     = Inl (Not_in_set ''type'' {''FILE'', ''ARCHIVE''})"
  by (simp add: File_parse_file_spec_def File_from_dict_def File_init_def File_validate_def
      upper_def str_upper_def upper_char_def split_beta check_defs dict_defs slot_defs
      flow_defs type_defs)

theorem parse_file_spec_uppercases_type_witness:
  "urlparse_plain_path (PStr ''lib/deps.zip'') = Inr ''lib/deps.zip''
   \<and> File_parse_file_spec urlparse_plain_path
       (PDict [(PStr ''source'', PStr ''lib/deps.zip''), (PStr ''type'', PStr ''archive'')])
     = Inr (PStr ''deps'',
            File (PStr ''lib/deps.zip'') (PStr ''ARCHIVE'') (PStr ''APPLICATION'')
              (PInt 0) (PInt 0))
   \<and> File_from_dict
       (PDict [(PStr ''source'', PStr ''lib/deps.zip''), (PStr ''type'', PStr ''archive'')])
     = Inl (Not_in_set ''type'' {''FILE'', ''ARCHIVE''})"
  using parse_file_spec_uppercases_type
    [of urlparse_plain_path "''lib/deps.zip''" "''lib/deps.zip''"]
  by (simp add: string_defs urlparse_plain_path_def)


section \<open>Unknown keys\<close>

text \<open>
  Claim C8. For each of the six entities, \<open>from_dict\<close> of a mapping that has a key
  outside the allowed keys (the \<open>__slots__\<close>, or the camel-case \<open>_keys\<close> of the two
  reports) raises the \<open>ValueError\<close> \<open>"Unknown extra keys for ..."\<close>, built by \<open>format_list\<close> from
  the set of all the keys of the mapping that are not allowed; nothing is
  constructed.
\<close>

theorem from_dict_rejects_unknown_keys:
  "(set (map fst d) - set (map PStr Resources_slots) \<noteq> {} \<longrightarrow>
      Resources_from_dict (PDict d)
        = Inl (Unknown_extra_keys ''Resources''
                 (set (map fst d) - set (map PStr Resources_slots))))
   \<and> (set (map fst d) - set (map PStr File_slots) \<noteq> {} \<longrightarrow>
      File_from_dict (PDict d)
        = Inl (Unknown_extra_keys ''File'' (set (map fst d) - set (map PStr File_slots))))
   \<and> (set (map fst d) - set (map PStr Service_slots) \<noteq> {} \<longrightarrow>
      Service_from_dict urlparse_path (PDict d)
        = Inl (Unknown_extra_keys ''Service''
                 (set (map fst d) - set (map PStr Service_slots))))
   \<and> (set (map fst d) - set (map PStr Job_slots) \<noteq> {} \<longrightarrow>
      Job_from_dict urlparse_path (PDict d)
        = Inl (Unknown_extra_keys ''Job'' (set (map fst d) - set (map PStr Job_slots))))
   \<and> (set (map fst d) - set (map PStr ResourceUsageReport_keys) \<noteq> {} \<longrightarrow>
      ResourceUsageReport_from_dict (PDict d)
        = Inl (Unknown_extra_keys ''ResourceUsageReport''
                 (set (map fst d) - set (map PStr ResourceUsageReport_keys))))
   \<and> (set (map fst d) - set (map PStr ApplicationReport_keys) \<noteq> {} \<longrightarrow>
      ApplicationReport_from_dict td_float (PDict d)
        = Inl (Unknown_extra_keys ''ApplicationReport''
                 (set (map fst d) - set (map PStr ApplicationReport_keys))))
   \<and> class_of (Unknown_extra_keys cls extra) = Cls_ValueError"
  by (simp add: Resources_from_dict_def File_from_dict_def Service_from_dict_def
      Job_from_dict_def ResourceUsageReport_from_dict_def ApplicationReport_from_dict_def
      check_keys_def after_check_def class_of_def)

theorem from_dict_rejects_unknown_keys_witness:
  "Resources_from_dict (PDict [(PStr ''memory'', PInt 1), (PStr ''vcores'', PInt 1), (PStr ''bogus'', PInt 2)])
     = Inl (Unknown_extra_keys ''Resources'' {PStr ''bogus''})
   \<and> File_from_dict (PDict [(PStr ''memory'', PInt 1), (PStr ''vcores'', PInt 1), (PStr ''bogus'', PInt 2)])
     = Inl (Unknown_extra_keys ''File'' {PStr ''memory'', PStr ''vcores'', PStr ''bogus''})
   \<and> Service_from_dict urlparse_plain_path
        (PDict [(PStr ''memory'', PInt 1), (PStr ''vcores'', PInt 1), (PStr ''bogus'', PInt 2)])
     = Inl (Unknown_extra_keys ''Service'' {PStr ''memory'', PStr ''vcores'', PStr ''bogus''})
   \<and> Job_from_dict urlparse_plain_path
        (PDict [(PStr ''memory'', PInt 1), (PStr ''vcores'', PInt 1), (PStr ''bogus'', PInt 2)])
     = Inl (Unknown_extra_keys ''Job'' {PStr ''memory'', PStr ''vcores'', PStr ''bogus''})
   \<and> ResourceUsageReport_from_dict
        (PDict [(PStr ''memory'', PInt 1), (PStr ''vcores'', PInt 1), (PStr ''bogus'', PInt 2)])
     = Inl (Unknown_extra_keys ''ResourceUsageReport''
              {PStr ''memory'', PStr ''vcores'', PStr ''bogus''})
   \<and> ApplicationReport_from_dict (\<lambda>f. Inl TypeError)
        (PDict [(PStr ''memory'', PInt 1), (PStr ''vcores'', PInt 1), (PStr ''bogus'', PInt 2)])
     = Inl (Unknown_extra_keys ''ApplicationReport''
              {PStr ''memory'', PStr ''vcores'', PStr ''bogus''})"
  using from_dict_rejects_unknown_keys
    [of "[(PStr ''memory'', PInt 1), (PStr ''vcores'', PInt 1), (PStr ''bogus'', PInt 2)]"
        urlparse_plain_path "\<lambda>f. Inl TypeError"]
  by (simp add: slot_defs ResourceUsageReport_keys_eq ApplicationReport_keys_eq)


section \<open>The wire round trip\<close>




end
